theory Spec2Isabelle
  imports Complex_Main "HOL-Library.Multiset"
begin

section \<open>Request lifecycle controller (hooks/useApi.ts, services/apiService.ts)\<close>

text \<open>
  The state held by \<^verbatim>\<open>useApi\<close>: \<^verbatim>\<open>{ data: T | null, loading: boolean, error: string | null }\<close>.
  \<^verbatim>\<open>null\<close> is \<open>None\<close>.
\<close>

record 'a ApiState =
  data :: "'a option"
  loading :: bool
  error :: "string option"

text \<open>
  What the awaited \<^verbatim>\<open>apiFunction\<close> can throw. An axios error carries an optional response
  (its HTTP status and the optional \<^verbatim>\<open>data.detail\<close> of its payload) and a message; any other
  \<^verbatim>\<open>Error\<close> carries a message; anything else can be thrown as well.
\<close>

record AxiosResponse =
  status :: nat
  detail :: "string option"

datatype thrown =
    AxiosError "AxiosResponse option" string
  | PlainError string
  | NonError

text \<open>
  \<^verbatim>\<open>a || b\<close> on an optional string: \<^verbatim>\<open>undefined\<close> and the empty string are falsy.
\<close>

definition truthy :: "string option \<Rightarrow> bool" where
  "truthy v = (case v of None \<Rightarrow> False | Some s \<Rightarrow> s \<noteq> [])"

definition js_or :: "string option \<Rightarrow> string \<Rightarrow> string" where
  "js_or a b = (case a of None \<Rightarrow> b | Some s \<Rightarrow> if s \<noteq> [] then s else b)"

text \<open>\<^verbatim>\<open>error.response?.data?.detail\<close>\<close>

definition response_detail :: "AxiosResponse option \<Rightarrow> string option" where
  "response_detail r = (case r of None \<Rightarrow> None | Some x \<Rightarrow> detail x)"

text \<open>The \<^verbatim>\<open>errorMessage\<close> computed in the \<^verbatim>\<open>catch\<close> block of \<^verbatim>\<open>execute\<close>.\<close>

definition errorMessage :: "thrown \<Rightarrow> string" where
  "errorMessage e =
     (case e of
        AxiosError r m \<Rightarrow> js_or (response_detail r) m
      | PlainError m \<Rightarrow> m
      | NonError \<Rightarrow> ''An unknown error occurred'')"

text \<open>
  \<^verbatim>\<open>execute\<close> is an async function with one suspension point. Its part before the
  \<^verbatim>\<open>await\<close> is \<open>execute_start\<close>; its part after it is \<open>execute_settle\<close>, run when the
  awaited promise is fulfilled or rejected. Each is one functional \<^verbatim>\<open>setState\<close> update,
  applied to the state current at that moment.

  The value of a fulfilment is a \<^verbatim>\<open>T\<close>. The hook puts no bound on \<^verbatim>\<open>T\<close> (it is \<^verbatim>\<open>any\<close> where
  the hook wraps \<^verbatim>\<open>apiService.runBacktest\<close>), so the value may be \<^verbatim>\<open>null\<close>: \<open>None\<close>, as in the
  state.
\<close>

datatype 'a settled = Resolved "'a option" | Rejected thrown

definition execute_start :: "'a ApiState \<Rightarrow> 'a ApiState" where
  "execute_start prev = prev\<lparr>loading := True, error := None\<rparr>"

definition execute_settle :: "'a settled \<Rightarrow> 'a ApiState \<Rightarrow> 'a ApiState" where
  "execute_settle r prev =
     (case r of
        Resolved result \<Rightarrow> prev\<lparr>data := result, loading := False\<rparr>
      | Rejected e \<Rightarrow> prev\<lparr>error := Some (errorMessage e), loading := False\<rparr>)"

text \<open>
  The value \<^verbatim>\<open>execute\<close> returns: \<^verbatim>\<open>{ success: true, data }\<close> is \<open>Inr\<close>,
  \<^verbatim>\<open>{ success: false, error }\<close> is \<open>Inl\<close>.
\<close>

definition execute_return :: "'a settled \<Rightarrow> string + 'a option" where
  "execute_return r =
     (case r of Resolved result \<Rightarrow> Inr result | Rejected e \<Rightarrow> Inl (errorMessage e))"

definition initialState :: "'a ApiState" where
  "initialState = \<lparr>data = None, loading = False, error = None\<rparr>"

definition reset :: "'a ApiState \<Rightarrow> 'a ApiState" where
  "reset prev = \<lparr>data = None, loading = False, error = None\<rparr>"

text \<open>
  What can happen to one controller, in the order in which it happens: a call starts,
  a pending call settles, or \<^verbatim>\<open>reset\<close> is called. The code keeps no record of which call a
  settlement belongs to.
\<close>

datatype 'a event = Start | Settle "'a settled" | Reset

fun step :: "'a ApiState \<Rightarrow> 'a event \<Rightarrow> 'a ApiState" where
  "step s Start = execute_start s"
| "step s (Settle r) = execute_settle r s"
| "step s Reset = reset s"

definition run :: "'a ApiState \<Rightarrow> 'a event list \<Rightarrow> 'a ApiState" where
  "run s es = foldl step s es"

text \<open>\<^verbatim>\<open>ERROR_MESSAGES\<close> of utils/constants.ts, as far as \<^verbatim>\<open>handleApiError\<close> uses them.\<close>

definition ERROR_MESSAGES_NETWORK :: string where
  "ERROR_MESSAGES_NETWORK = ''Network error. Please check your connection.''"

definition ERROR_MESSAGES_UNAUTHORIZED :: string where
  "ERROR_MESSAGES_UNAUTHORIZED = ''Authentication required. Please log in.''"

definition ERROR_MESSAGES_FORBIDDEN :: string where
  "ERROR_MESSAGES_FORBIDDEN = ''Access denied. Insufficient permissions.''"

definition ERROR_MESSAGES_NOT_FOUND :: string where
  "ERROR_MESSAGES_NOT_FOUND = ''Requested resource not found.''"

definition ERROR_MESSAGES_SERVER_ERROR :: string where
  "ERROR_MESSAGES_SERVER_ERROR = ''Server error. Please try again later.''"

definition ERROR_MESSAGES_VALIDATION_ERROR :: string where
  "ERROR_MESSAGES_VALIDATION_ERROR = ''Please check your input and try again.''"

definition ERROR_MESSAGES_UNKNOWN :: string where
  "ERROR_MESSAGES_UNKNOWN = ''An unknown error occurred.''"

text \<open>
  \<^verbatim>\<open>handleApiError\<close> of services/apiService.ts. \<^verbatim>\<open>error.response?.status\<close> is
  \<^verbatim>\<open>undefined\<close> exactly when the error has no response.
\<close>

definition handleApiError :: "thrown \<Rightarrow> string" where
  "handleApiError e =
     (case e of
        AxiosError r m \<Rightarrow>
          (case r of
             None \<Rightarrow> ERROR_MESSAGES_NETWORK
           | Some x \<Rightarrow>
               if status x = 400 then js_or (detail x) ERROR_MESSAGES_VALIDATION_ERROR
               else if status x = 401 then ERROR_MESSAGES_UNAUTHORIZED
               else if status x = 403 then ERROR_MESSAGES_FORBIDDEN
               else if status x = 404 then ERROR_MESSAGES_NOT_FOUND
               else if status x = 500 then ERROR_MESSAGES_SERVER_ERROR
               else js_or (detail x) ERROR_MESSAGES_UNKNOWN)
      | PlainError m \<Rightarrow> m
      | NonError \<Rightarrow> ERROR_MESSAGES_UNKNOWN)"

section \<open>JavaScript numbers\<close>

text \<open>
  A JavaScript number is a finite value, an infinity or NaN. Finite values are modelled as
  reals: rounding, overflow of finite arithmetic and the sign of zero are not modelled. The
  numbers of a deserialized JSON payload are finite.
\<close>

datatype jsnum = Fin real | PosInf | NegInf | NaN

fun js_sub :: "jsnum \<Rightarrow> jsnum \<Rightarrow> jsnum" where
  "js_sub NaN _ = NaN"
| "js_sub _ NaN = NaN"
| "js_sub (Fin a) (Fin b) = Fin (a - b)"
| "js_sub (Fin a) PosInf = NegInf"
| "js_sub (Fin a) NegInf = PosInf"
| "js_sub PosInf PosInf = NaN"
| "js_sub PosInf _ = PosInf"
| "js_sub NegInf NegInf = NaN"
| "js_sub NegInf _ = NegInf"

fun js_div :: "jsnum \<Rightarrow> jsnum \<Rightarrow> jsnum" where
  "js_div NaN _ = NaN"
| "js_div _ NaN = NaN"
| "js_div (Fin a) (Fin b) =
     (if b = 0 then (if a = 0 then NaN else if 0 < a then PosInf else NegInf)
      else Fin (a / b))"
| "js_div (Fin a) _ = Fin 0"
| "js_div PosInf (Fin b) = (if 0 \<le> b then PosInf else NegInf)"
| "js_div NegInf (Fin b) = (if 0 \<le> b then NegInf else PosInf)"
| "js_div _ _ = NaN"

fun js_mul :: "jsnum \<Rightarrow> jsnum \<Rightarrow> jsnum" where
  "js_mul NaN _ = NaN"
| "js_mul _ NaN = NaN"
| "js_mul (Fin a) (Fin b) = Fin (a * b)"
| "js_mul (Fin a) PosInf = (if a = 0 then NaN else if 0 < a then PosInf else NegInf)"
| "js_mul (Fin a) NegInf = (if a = 0 then NaN else if 0 < a then NegInf else PosInf)"
| "js_mul PosInf (Fin b) = (if b = 0 then NaN else if 0 < b then PosInf else NegInf)"
| "js_mul NegInf (Fin b) = (if b = 0 then NaN else if 0 < b then NegInf else PosInf)"
| "js_mul PosInf PosInf = PosInf"
| "js_mul NegInf NegInf = PosInf"
| "js_mul _ _ = NegInf"

definition isFinite :: "jsnum \<Rightarrow> bool" where
  "isFinite v = (case v of Fin _ \<Rightarrow> True | _ \<Rightarrow> False)"

section \<open>Trades and their sorting (components/TradesTable.tsx)\<close>

record TradeRecord =
  week :: string
  strategy :: string
  symbol :: string
  action :: string
  quantity :: real
  price :: real
  strike :: "real option"
  cash_flow :: real
  trade_notes :: string
  timestamp :: string

datatype SortField = Week | Symbol | Action | Quantity | Price | Cash_flow | Timestamp

datatype SortDirection = Asc | Desc

text \<open>
  Two built-ins of the language are parameters of the model. \<open>coll\<close> is the collation behind
  \<^verbatim>\<open>String.prototype.localeCompare\<close>: negative, zero or positive. \<open>dateParse\<close> is what
  \<^verbatim>\<open>new Date(s)\<close> makes of a string: the milliseconds of the instant, or nothing for an
  invalid date, whose \<^verbatim>\<open>getTime()\<close> is NaN.
\<close>

definition localeCompare :: "(string \<Rightarrow> string \<Rightarrow> int) \<Rightarrow> string \<Rightarrow> string \<Rightarrow> jsnum" where
  "localeCompare coll x y = Fin (real_of_int (coll x y))"

definition getTime :: "(string \<Rightarrow> int option) \<Rightarrow> string \<Rightarrow> jsnum" where
  "getTime dateParse s = (case dateParse s of None \<Rightarrow> NaN | Some ms \<Rightarrow> Fin (real_of_int ms))"

text \<open>
  What is taken of a collation where a theorem needs it: swapping the arguments swaps the
  sign of the result, and the order it gives is transitive.
\<close>

definition properCollation :: "(string \<Rightarrow> string \<Rightarrow> int) \<Rightarrow> bool" where
  "properCollation coll =
     ((\<forall>x y. (coll x y < 0) = (0 < coll y x))
      \<and> (\<forall>x y z. coll x y \<le> 0 \<and> coll y z \<le> 0 \<longrightarrow> coll x z \<le> 0))"

text \<open>The value the \<^verbatim>\<open>switch (sortField)\<close> reads from a trade: a string or a number.\<close>

datatype sortValue = StringValue string | NumberValue jsnum

fun sortKey :: "(string \<Rightarrow> int option) \<Rightarrow> SortField \<Rightarrow> TradeRecord \<Rightarrow> sortValue" where
  "sortKey dateParse Week a = StringValue (week a)"
| "sortKey dateParse Symbol a = StringValue (symbol a)"
| "sortKey dateParse Action a = StringValue (action a)"
| "sortKey dateParse Quantity a = NumberValue (Fin (quantity a))"
| "sortKey dateParse Price a = NumberValue (Fin (price a))"
| "sortKey dateParse Cash_flow a = NumberValue (Fin (cash_flow a))"
| "sortKey dateParse Timestamp a = NumberValue (getTime dateParse (timestamp a))"

text \<open>
  The comparison function handed to \<^verbatim>\<open>sort\<close>. Both values are read from the same field, so
  they are two strings or two numbers; the case of one string and one number is never reached
  (lemma \<open>sortKey_same_type\<close>) and is given NaN.
\<close>

definition compareTrades ::
  "(string \<Rightarrow> string \<Rightarrow> int) \<Rightarrow> (string \<Rightarrow> int option) \<Rightarrow> SortField \<Rightarrow> SortDirection \<Rightarrow>
   TradeRecord \<Rightarrow> TradeRecord \<Rightarrow> jsnum" where
  "compareTrades coll dateParse sortField sortDirection a b =
     (case (sortKey dateParse sortField a, sortKey dateParse sortField b) of
        (StringValue aValue, StringValue bValue) \<Rightarrow>
          (if sortDirection = Asc then localeCompare coll aValue bValue
           else localeCompare coll bValue aValue)
      | (NumberValue aValue, NumberValue bValue) \<Rightarrow>
          (if sortDirection = Asc then js_sub aValue bValue else js_sub bValue aValue)
      | _ \<Rightarrow> NaN)"

text \<open>
  \<^verbatim>\<open>Array.prototype.sort(comparefn)\<close> is a built-in of the language. A NaN from the
  comparison function counts as zero (\<open>sortCompare\<close>).
\<close>

definition sortCompare :: "('a \<Rightarrow> 'a \<Rightarrow> jsnum) \<Rightarrow> 'a \<Rightarrow> 'a \<Rightarrow> jsnum" where
  "sortCompare comparefn x y = (case comparefn x y of NaN \<Rightarrow> Fin 0 | v \<Rightarrow> v)"

definition js_positive :: "jsnum \<Rightarrow> bool" where
  "js_positive v = (case v of Fin r \<Rightarrow> 0 < r | PosInf \<Rightarrow> True | _ \<Rightarrow> False)"

definition js_negative :: "jsnum \<Rightarrow> bool" where
  "js_negative v = (case v of Fin r \<Rightarrow> r < 0 | NegInf \<Rightarrow> True | _ \<Rightarrow> False)"

text \<open>
  ECMAScript's consistent comparator for the values of a list: for all \<open>a\<close>, \<open>b\<close>, \<open>c\<close> among
  them the result for \<open>a\<close> and \<open>b\<close> is not NaN; \<open>a\<close> compares equal to itself; comparing equal
  is symmetric and transitive; comparing less is transitive; comparing greater is transitive.
\<close>

definition consistentComparator :: "('a \<Rightarrow> 'a \<Rightarrow> jsnum) \<Rightarrow> 'a list \<Rightarrow> bool" where
  "consistentComparator comparefn xs =
     list_all (\<lambda>a. list_all (\<lambda>b. list_all (\<lambda>c.
         comparefn a b \<noteq> NaN
       \<and> comparefn a a = Fin 0
       \<and> (if comparefn a b = Fin 0 then comparefn b a = Fin 0 else True)
       \<and> (if comparefn a b = Fin 0 \<and> comparefn b c = Fin 0 then comparefn a c = Fin 0 else True)
       \<and> (if js_negative (comparefn a b) \<and> js_negative (comparefn b c)
           then js_negative (comparefn a c) else True)
       \<and> (if js_positive (comparefn a b) \<and> js_positive (comparefn b c)
           then js_positive (comparefn a c) else True)) xs) xs) xs"

text \<open>
  The stable insertion sort: an element moves right only past elements it compares greater
  than. With a consistent comparator it gives the one order the language allows: sorted, and
  with elements that compare equal in their original order.
\<close>

fun js_insert :: "('a \<Rightarrow> 'a \<Rightarrow> jsnum) \<Rightarrow> 'a \<Rightarrow> 'a list \<Rightarrow> 'a list" where
  "js_insert comparefn x [] = [x]"
| "js_insert comparefn x (y # ys) =
     (if js_positive (sortCompare comparefn x y) then y # js_insert comparefn x ys
      else x # y # ys)"

definition insertionSort :: "('a \<Rightarrow> 'a \<Rightarrow> jsnum) \<Rightarrow> 'a list \<Rightarrow> 'a list" where
  "insertionSort comparefn xs = foldr (js_insert comparefn) xs []"

text \<open>
  The built-in itself. With a comparison function that is a consistent comparator for the
  elements, ECMAScript requires the sorted, stable order. With any other comparison function
  (here: one that returns NaN, for a timestamp that does not parse) the language leaves the
  order to the implementation: that order is the parameter \<open>engine\<close>, of which only this is
  known, that it returns the elements it was given; an \<open>engine\<close> that does not is not taken.
\<close>

definition js_sort ::
  "(('a \<Rightarrow> 'a \<Rightarrow> jsnum) \<Rightarrow> 'a list \<Rightarrow> 'a list) \<Rightarrow> ('a \<Rightarrow> 'a \<Rightarrow> jsnum) \<Rightarrow> 'a list \<Rightarrow> 'a list" where
  "js_sort engine comparefn xs =
     (if consistentComparator comparefn xs then insertionSort comparefn xs
      else if mset (engine comparefn xs) = mset xs then engine comparefn xs
      else xs)"

text \<open>\<^verbatim>\<open>const sortedTrades = [...trades].sort((a, b) => ...)\<close>\<close>

definition sortedTrades ::
  "((TradeRecord \<Rightarrow> TradeRecord \<Rightarrow> jsnum) \<Rightarrow> TradeRecord list \<Rightarrow> TradeRecord list) \<Rightarrow>
   (string \<Rightarrow> string \<Rightarrow> int) \<Rightarrow> (string \<Rightarrow> int option) \<Rightarrow> SortField \<Rightarrow> SortDirection \<Rightarrow>
   TradeRecord list \<Rightarrow> TradeRecord list" where
  "sortedTrades engine coll dateParse sortField sortDirection trades =
     js_sort engine (compareTrades coll dateParse sortField sortDirection) trades"

text \<open>
  An implementation of the built-in for the examples, after the TimSort of the V8 engine on
  an array of fewer than 64 elements: the leading run is counted, and reversed when it
  descends (\<^verbatim>\<open>CountAndMakeRun\<close>); each further element is then put into its place in the
  part before it, found by binary search (\<^verbatim>\<open>BinaryInsertionSort\<close>).
\<close>

fun runRest :: "bool \<Rightarrow> ('a \<Rightarrow> 'a \<Rightarrow> jsnum) \<Rightarrow> 'a \<Rightarrow> 'a list \<Rightarrow> nat" where
  "runRest isDescending comparefn previousElement [] = 0"
| "runRest isDescending comparefn previousElement (currentElement # rest) =
     (let order = sortCompare comparefn currentElement previousElement in
      if (if isDescending then \<not> js_negative order else js_negative order) then 0
      else Suc (runRest isDescending comparefn currentElement rest))"

definition countAndMakeRun :: "('a \<Rightarrow> 'a \<Rightarrow> jsnum) \<Rightarrow> 'a list \<Rightarrow> 'a list \<times> 'a list" where
  "countAndMakeRun comparefn work =
     (case work of
        elementHigh # elementLow # rest \<Rightarrow>
          (let isDescending = js_negative (sortCompare comparefn elementLow elementHigh);
               runLength = 2 + runRest isDescending comparefn elementLow rest;
               theRun = take runLength work
           in (if isDescending then rev theRun else theRun, drop runLength work))
      | _ \<Rightarrow> (work, []))"

function binarySearch :: "('a \<Rightarrow> 'a \<Rightarrow> jsnum) \<Rightarrow> 'a \<Rightarrow> 'a list \<Rightarrow> nat \<Rightarrow> nat \<Rightarrow> nat" where
  "binarySearch comparefn pivot work left right =
     (if left < right
      then (if js_negative (sortCompare comparefn pivot (work ! (left + (right - left) div 2)))
            then binarySearch comparefn pivot work left (left + (right - left) div 2)
            else binarySearch comparefn pivot work (left + (right - left) div 2 + 1) right)
      else left)"
  by pat_completeness auto
termination
  by (relation "measure (\<lambda>(comparefn, pivot, work, left, right). right - left)") auto

declare binarySearch.simps [simp del]

definition binaryInsert :: "('a \<Rightarrow> 'a \<Rightarrow> jsnum) \<Rightarrow> 'a list \<Rightarrow> 'a \<Rightarrow> 'a list" where
  "binaryInsert comparefn work pivot =
     (let left = binarySearch comparefn pivot work 0 (length work)
      in take left work @ pivot # drop left work)"

definition exampleEngine :: "('a \<Rightarrow> 'a \<Rightarrow> jsnum) \<Rightarrow> 'a list \<Rightarrow> 'a list" where
  "exampleEngine comparefn xs =
     (if length xs < 2 then xs
      else case countAndMakeRun comparefn xs of
             (theRun, rest) \<Rightarrow> foldl (binaryInsert comparefn) theRun rest)"

text \<open>
  What \<^verbatim>\<open>TradesTable\<close> renders, from its props and its state (\<^verbatim>\<open>sortField\<close>,
  \<^verbatim>\<open>sortDirection\<close>, \<^verbatim>\<open>isCollapsed\<close>): the "No trades executed" card, or the card with the
  title, the number of trades and, unless collapsed, the sorted rows.
\<close>

datatype tradesView =
    NoTradesExecuted string
  | TradesCard string nat "TradeRecord list option"

definition TradesTable ::
  "((TradeRecord \<Rightarrow> TradeRecord \<Rightarrow> jsnum) \<Rightarrow> TradeRecord list \<Rightarrow> TradeRecord list) \<Rightarrow>
   (string \<Rightarrow> string \<Rightarrow> int) \<Rightarrow> (string \<Rightarrow> int option) \<Rightarrow> SortField \<Rightarrow> SortDirection \<Rightarrow> bool \<Rightarrow>
   TradeRecord list \<Rightarrow> string \<Rightarrow> tradesView" where
  "TradesTable engine coll dateParse sortField sortDirection isCollapsed trades title =
     (if length trades = 0 then NoTradesExecuted title
      else TradesCard title (length trades)
             (if isCollapsed then None
              else Some (sortedTrades engine coll dateParse sortField sortDirection trades)))"

text \<open>
  A collation for the examples: comparison by code units. On strings of ASCII digits it
  orders as the collation of every locale does.
\<close>

fun codeUnitCompare :: "string \<Rightarrow> string \<Rightarrow> int" where
  "codeUnitCompare [] [] = 0"
| "codeUnitCompare [] (y # ys) = - 1"
| "codeUnitCompare (x # xs) [] = 1"
| "codeUnitCompare (x # xs) (y # ys) =
     (if (of_char x :: nat) < of_char y then - 1
      else if (of_char y :: nat) < of_char x then 1
      else codeUnitCompare xs ys)"

text \<open>
  The specification's reading of a week label as a number, for labels written in decimal
  digits.
\<close>

definition spec_digit :: "char \<Rightarrow> nat option" where
  "spec_digit c =
     (let n = (of_char c :: nat) in if 48 \<le> n \<and> n \<le> 57 then Some (n - 48) else None)"

fun spec_digits :: "nat \<Rightarrow> string \<Rightarrow> nat option" where
  "spec_digits acc [] = Some acc"
| "spec_digits acc (c # cs) =
     (case spec_digit c of None \<Rightarrow> None | Some d \<Rightarrow> spec_digits (10 * acc + d) cs)"

definition spec_weekNumber :: "string \<Rightarrow> nat option" where
  "spec_weekNumber s = (if s = [] then None else spec_digits 0 s)"

section \<open>Strategy results and their summary (types.ts, components/SummaryMetrics.tsx)\<close>

text \<open>
  A value of the open part of a summary (\<^verbatim>\<open>[key: string]: any\<close>): a scalar of the JSON
  payload.
\<close>

datatype jsvalue = JNumber real | JString string | JBool bool | JNull

text \<open>
  \<open>extras\<close> holds the properties of the summary object besides the five declared ones, in the
  order of \<^verbatim>\<open>Object.entries\<close>.
\<close>

record StrategySummary =
  total_trades :: real
  initial_capital :: real
  final_capital :: real
  total_return :: real
  execution_time :: real
  extras :: "(string \<times> jsvalue) list"

record StrategyResult =
  trades :: "TradeRecord list"
  summary :: StrategySummary
  strategy_name :: string
  result_execution_time :: real
  result_error :: "string option"

text \<open>\<^verbatim>\<open>results.results\<close>: each strategy's entry may be absent.\<close>

record StrategyResults =
  wheel :: "StrategyResult option"
  rotator :: "StrategyResult option"

text \<open>\<^verbatim>\<open>returnPercentage\<close> and \<^verbatim>\<open>totalPnL\<close> of \<^verbatim>\<open>SummaryMetrics\<close>.\<close>

definition returnPercentage :: "StrategySummary \<Rightarrow> jsnum" where
  "returnPercentage s =
     (if 0 < initial_capital s
      then js_mul
             (js_div (js_sub (Fin (final_capital s)) (Fin (initial_capital s)))
                (Fin (initial_capital s)))
             (Fin 100)
      else Fin 0)"

definition totalPnL :: "StrategySummary \<Rightarrow> jsnum" where
  "totalPnL s = js_sub (Fin (final_capital s)) (Fin (initial_capital s))"

text \<open>\<^verbatim>\<open>String.prototype.includes\<close>: the argument occurs as a contiguous part.\<close>

fun js_includes :: "string \<Rightarrow> string \<Rightarrow> bool" where
  "js_includes [] sub = (sub = [])"
| "js_includes (c # cs) sub = (take (length sub) (c # cs) = sub \<or> js_includes cs sub)"

text \<open>
  How the value of an additional metric is shown: through \<^verbatim>\<open>formatPercentage\<close>, through
  \<^verbatim>\<open>toLocaleString\<close>, or as \<^verbatim>\<open>String(value)\<close>. The formatting of the digits is not
  modelled.
\<close>

datatype rendered = Percentage real | LocaleNumber real | StringForm string

definition renderMetric :: "string \<Rightarrow> jsvalue \<Rightarrow> rendered" where
  "renderMetric key v =
     (case v of
        JNumber n \<Rightarrow>
          (if js_includes key ''rate'' \<or> js_includes key ''percentage'' \<or> js_includes key ''ratio''
           then Percentage n else LocaleNumber n)
      | JString s \<Rightarrow> StringForm s
      | JBool b \<Rightarrow> StringForm (if b then ''true'' else ''false'')
      | JNull \<Rightarrow> StringForm ''null'')"

definition mainMetrics :: "string list" where
  "mainMetrics = [''total_trades'', ''initial_capital'', ''final_capital'', ''total_return'',
     ''execution_time'']"

text \<open>
  The "Additional Metrics" block: present when the summary has more than five keys; an entry
  whose key is one of the main metrics is skipped. The display form of the key is not
  modelled: an entry is shown under its key.
\<close>

definition additionalMetrics :: "StrategySummary \<Rightarrow> (string \<times> rendered) list option" where
  "additionalMetrics s =
     (if 5 < 5 + length (extras s)
      then Some (List.map_filter
                   (\<lambda>(key, v). if key \<in> set mainMetrics then None
                                else Some (key, renderMetric key v))
                   (extras s))
      else None)"

text \<open>
  What \<^verbatim>\<open>SummaryMetrics\<close> renders: the error card with the strategy's name and the error, or
  the performance card with the capital figures, the P&L, the return percentage, the number
  of trades, the execution time and the additional metrics.
\<close>

datatype summaryView =
    ErrorSummary string string
  | PerformanceSummary string real real jsnum jsnum real real "(string \<times> rendered) list option"

definition performanceSummary :: "StrategySummary \<Rightarrow> string \<Rightarrow> summaryView" where
  "performanceSummary s strategyName =
     PerformanceSummary strategyName (initial_capital s) (final_capital s) (totalPnL s)
       (returnPercentage s) (total_trades s) (execution_time s) (additionalMetrics s)"

definition SummaryMetrics :: "StrategyResult \<Rightarrow> string \<Rightarrow> summaryView" where
  "SummaryMetrics result strategyName =
     (case result_error result of
        None \<Rightarrow> performanceSummary (summary result) strategyName
      | Some e \<Rightarrow>
          if e \<noteq> [] then ErrorSummary strategyName e
          else performanceSummary (summary result) strategyName)"

section \<open>Comparison chart (PerformanceChart, second part of components/TradesTable.tsx)\<close>

text \<open>
  A row of \<^verbatim>\<open>comparisonData\<close>, with its keys \<^verbatim>\<open>strategy\<close>, \<^verbatim>\<open>'Return ($)'\<close>,
  \<^verbatim>\<open>'Return (%)'\<close>, \<^verbatim>\<open>trades\<close>, \<^verbatim>\<open>'Initial Capital'\<close> and \<^verbatim>\<open>'Final Capital'\<close>.
\<close>

record ChartDatum =
  chart_strategy :: string
  Return_USD :: jsnum
  Return_Pct :: jsnum
  chart_trades :: real
  Initial_Capital :: real
  Final_Capital :: real

definition chartRow :: "string \<Rightarrow> StrategyResult \<Rightarrow> ChartDatum" where
  "chartRow label result =
     (let ret = js_sub (Fin (final_capital (summary result))) (Fin (initial_capital (summary result)));
          retPct = js_mul (js_div ret (Fin (initial_capital (summary result)))) (Fin 100)
      in \<lparr>chart_strategy = label, Return_USD = ret, Return_Pct = retPct,
           chart_trades = total_trades (summary result),
           Initial_Capital = initial_capital (summary result),
           Final_Capital = final_capital (summary result)\<rparr>)"

text \<open>\<^verbatim>\<open>if (result && !result.error) comparisonData.push(...)\<close>, for one strategy.\<close>

definition pushRow :: "string \<Rightarrow> StrategyResult option \<Rightarrow> ChartDatum list" where
  "pushRow label result =
     (case result of
        None \<Rightarrow> []
      | Some r \<Rightarrow> if \<not> truthy (result_error r) then [chartRow label r] else [])"

definition comparisonData :: "StrategyResult option \<Rightarrow> StrategyResult option \<Rightarrow> ChartDatum list" where
  "comparisonData wheelResult rotatorResult =
     pushRow ''Options Wheel'' wheelResult @ pushRow ''Crypto Rotator'' rotatorResult"

text \<open>
  What \<^verbatim>\<open>PerformanceChart\<close> renders: the "No data available for charts" card, or the charts
  over the comparison data. The action distribution is not modelled.
\<close>

datatype chartView = NoDataAvailable | Charts "ChartDatum list"

definition PerformanceChart :: "StrategyResult option \<Rightarrow> StrategyResult option \<Rightarrow> chartView" where
  "PerformanceChart wheelResult rotatorResult =
     (if length (comparisonData wheelResult rotatorResult) = 0 then NoDataAvailable
      else Charts (comparisonData wheelResult rotatorResult))"

text \<open>
  The strategy entries handed to the chart, with the labels of the chart, and the test the
  code applies before it pushes a row: \<^verbatim>\<open>!result.error\<close>.
\<close>

definition labelledViews ::
  "StrategyResult option \<Rightarrow> StrategyResult option \<Rightarrow> (string \<times> StrategyResult) list" where
  "labelledViews wheelResult rotatorResult =
     List.map_filter (\<lambda>(label, r). map_option (Pair label) r)
       [(''Options Wheel'', wheelResult), (''Crypto Rotator'', rotatorResult)]"

definition passesErrorTest :: "string \<times> StrategyResult \<Rightarrow> bool" where
  "passesErrorTest lv = (\<not> truthy (result_error (snd lv)))"

text \<open>
  The specification's error view: the entry carries an \<^verbatim>\<open>error\<close> field.
\<close>

definition spec_error_view :: "StrategyResult \<Rightarrow> bool" where
  "spec_error_view r = (result_error r \<noteq> None)"

section \<open>Results panel (components/ResultsPanel.tsx)\<close>

text \<open>
  What \<^verbatim>\<open>ResultsPanel\<close> renders: the loading card, the "Ready to Run" card, the "No Results"
  card, or one section per present strategy (its \<^verbatim>\<open>SummaryMetrics\<close> and its
  \<^verbatim>\<open>TradesTable\<close>, in its initial state: sorted by timestamp, descending, not collapsed) and
  the chart. The execution summary at the top of the panel is not modelled.
\<close>

datatype panelView =
    RunningStrategies
  | ReadyToRun
  | NoResults
  | ResultsShown "(summaryView \<times> tradesView) option" "(summaryView \<times> tradesView) option" chartView

definition strategySection ::
  "((TradeRecord \<Rightarrow> TradeRecord \<Rightarrow> jsnum) \<Rightarrow> TradeRecord list \<Rightarrow> TradeRecord list) \<Rightarrow>
   (string \<Rightarrow> string \<Rightarrow> int) \<Rightarrow> (string \<Rightarrow> int option) \<Rightarrow> string \<Rightarrow> string \<Rightarrow> StrategyResult \<Rightarrow>
   summaryView \<times> tradesView" where
  "strategySection engine coll dateParse strategyName title result =
     (SummaryMetrics result strategyName,
      TradesTable engine coll dateParse Timestamp Desc False (trades result) title)"

definition ResultsPanel ::
  "((TradeRecord \<Rightarrow> TradeRecord \<Rightarrow> jsnum) \<Rightarrow> TradeRecord list \<Rightarrow> TradeRecord list) \<Rightarrow>
   (string \<Rightarrow> string \<Rightarrow> int) \<Rightarrow> (string \<Rightarrow> int option) \<Rightarrow> StrategyResults option \<Rightarrow> bool \<Rightarrow>
   panelView" where
  "ResultsPanel engine coll dateParse results isLoading =
     (if isLoading then RunningStrategies
      else case results of
        None \<Rightarrow> ReadyToRun
      | Some res \<Rightarrow>
          (if wheel res = None \<and> rotator res = None then NoResults
           else ResultsShown
                  (map_option (strategySection engine coll dateParse ''Wheel'' ''Wheel Strategy Trades'')
                     (wheel res))
                  (map_option (strategySection engine coll dateParse ''Rotator'' ''Crypto Rotator Trades'')
                     (rotator res))
                  (PerformanceChart (wheel res) (rotator res))))"

text \<open>
  The specification's reading of the keys shown as percentages: the key contains
  \<^verbatim>\<open>rate\<close>, \<^verbatim>\<open>percentage\<close> or \<^verbatim>\<open>ratio\<close> whatever the case of its letters.
\<close>

definition toLowerCase :: "string \<Rightarrow> string" where
  "toLowerCase s =
     map (\<lambda>c. let n = (of_char c :: nat) in if 65 \<le> n \<and> n \<le> 90 then char_of (n + 32) else c) s"

definition spec_percentage_key :: "string \<Rightarrow> bool" where
  "spec_percentage_key key =
     (js_includes (toLowerCase key) ''rate'' \<or> js_includes (toLowerCase key) ''percentage''
      \<or> js_includes (toLowerCase key) ''ratio'')"

section \<open>Example inputs\<close>

text \<open>
  The trade, the summary and the strategy entry of the scenario of the specification, with
  the fields the examples vary left open.
\<close>

definition exampleTrade :: "string \<Rightarrow> string \<Rightarrow> TradeRecord" where
  "exampleTrade w s =
     \<lparr>week = w, strategy = ''wheel'', symbol = s, action = ''SELL_PUT'', quantity = 1,
      price = 3.96, strike = None, cash_flow = 3.96, trade_notes = [],
      timestamp = ''2025-06-28T13:09:31Z''\<rparr>"

text \<open>
  A date parser for the examples: it knows the timestamp of the example trade and four
  instants shortly before it, and takes every other string for an invalid date.
\<close>

definition exampleDateParse :: "string \<Rightarrow> int option" where
  "exampleDateParse s =
     (if s = ''2025-06-28T13:09:31Z'' then Some 1751116171000
      else if s = ''2025-06-28T13:09:30Z'' then Some 1751116170000
      else if s = ''2025-06-28T13:09:28Z'' then Some 1751116168000
      else if s = ''2025-06-28T13:09:27Z'' then Some 1751116167000
      else if s = ''2025-06-28T13:09:26Z'' then Some 1751116166000
      else None)"

text \<open>The example trade with a week label and a timestamp of its own.\<close>

definition tradeAt :: "string \<Rightarrow> string \<Rightarrow> TradeRecord" where
  "tradeAt w ts = (exampleTrade w ''IWM'')\<lparr>timestamp := ts\<rparr>"

text \<open>
  Seven trades, numbered by their week labels in the order of the list. The trade of week 3
  has a timestamp that is not a date; the trades of weeks 4 and 6 have the same timestamp.
\<close>

definition unstableTrades :: "TradeRecord list" where
  "unstableTrades =
     [tradeAt ''0'' ''2025-06-28T13:09:28Z'', tradeAt ''1'' ''2025-06-28T13:09:27Z'',
      tradeAt ''2'' ''2025-06-28T13:09:26Z'', tradeAt ''3'' ''not a date'',
      tradeAt ''4'' ''2025-06-28T13:09:30Z'', tradeAt ''5'' ''2025-06-28T13:09:31Z'',
      tradeAt ''6'' ''2025-06-28T13:09:30Z'']"

definition exampleSummary :: "real \<Rightarrow> real \<Rightarrow> StrategySummary" where
  "exampleSummary initial final =
     \<lparr>total_trades = 1, initial_capital = initial, final_capital = final,
      total_return = final - initial, execution_time = 1.5, extras = []\<rparr>"

definition exampleResult :: "StrategySummary \<Rightarrow> string option \<Rightarrow> StrategyResult" where
  "exampleResult s e =
     \<lparr>trades = [exampleTrade ''Week0'' ''IWM''], summary = s, strategy_name = ''wheel'',
      result_execution_time = 1.5, result_error = e\<rparr>"

section \<open>Properties of the request lifecycle controller\<close>

lemma run_Nil: "run s [] = s"
  by (simp add: run_def)

lemma run_Cons: "run s (e # es) = run (step s e) es"
  by (simp add: run_def)

lemma run_append: "run s (es @ fs) = run (run s es) fs"
  by (simp add: run_def)

lemma settle_resolved_data: "data (execute_settle (Resolved r) s) = r"
  by (simp add: execute_settle_def)

text \<open>
  C1 (as the code has it). For two overlapping calls of \<^verbatim>\<open>execute\<close> (A starts, B starts, B
  settles, A settles), the state after both is the one the last settlement leaves: when A
  is fulfilled its result is the final \<open>data\<close>, whatever B's was; when A is rejected its
  message is the final \<open>error\<close> and \<open>data\<close> is as B left it; \<open>loading\<close> is false. No result is
  discarded: the controller has no generation counter.
\<close>

theorem overlapping_calls_last_settled_wins:
  "data (run s [Start, Start, Settle b, Settle (Resolved ra)]) = ra
   \<and> loading (run s [Start, Start, Settle b, Settle a]) = False
   \<and> error (run s [Start, Start, Settle b, Settle (Rejected e)]) = Some (errorMessage e)
   \<and> data (run s [Start, Start, Settle b, Settle (Rejected e)])
       = data (run s [Start, Start, Settle b])"
  by (cases a) (simp_all add: run_def execute_settle_def)

text \<open>
  C1 as stated fails: call A is fulfilled with 1 and call B with 2, B settles first, and the
  final \<open>data\<close> is A's 1, not B's 2.
\<close>

theorem overlapping_calls_counterexample:
  "data (run initialState
           [Start, Start, Settle (Resolved (Some (2::nat))), Settle (Resolved (Some 1))])
     = Some 1
   \<and> data (run initialState
           [Start, Start, Settle (Resolved (Some (2::nat))), Settle (Resolved (Some 1))])
     \<noteq> Some 2"
  by (simp add: run_def execute_settle_def)

text \<open>
  C2 (as the code has it). After any history, \<^verbatim>\<open>reset()\<close> leaves the state
  \<^verbatim>\<open>{data: null, loading: false, error: null}\<close>; a call still in flight is not cancelled, and
  when it settles afterwards its outcome is applied to the state: fulfilled, its result
  becomes \<open>data\<close>; rejected, its message becomes \<open>error\<close>.
\<close>

theorem reset_then_late_settlement:
  "run s (es @ [Reset]) = \<lparr>data = None, loading = False, error = None\<rparr>
   \<and> data (run s (es @ [Reset, Settle (Resolved r)])) = r
   \<and> error (run s (es @ [Reset, Settle (Rejected e)])) = Some (errorMessage e)"
  by (simp add: run_def execute_settle_def reset_def)

text \<open>
  C2 as stated fails: a call starts, \<^verbatim>\<open>reset()\<close> empties the state, the call is fulfilled
  with 7, and \<open>data\<close> is 7.
\<close>

theorem reset_counterexample:
  "run initialState [Start, Reset] = \<lparr>data = None, loading = False, error = None\<rparr>
   \<and> data (run initialState [Start, Reset, Settle (Resolved (Some (7::nat)))]) = Some 7"
  by (simp add: run_def execute_settle_def reset_def initialState_def execute_start_def)

text \<open>
  C10 (as the code has it). A call that fails leaves \<open>data\<close> as it was, sets \<open>error\<close> to the
  message and clears \<open>loading\<close>; starting a call clears \<open>error\<close> and leaves \<open>data\<close> as it was;
  and one step leaves \<open>data\<close> empty exactly when it is \<^verbatim>\<open>reset()\<close>, or it is a fulfilment
  with \<^verbatim>\<open>null\<close>, or \<open>data\<close> was empty already and the step is not a fulfilment.
\<close>

theorem failure_and_start_keep_data:
  "data (execute_settle (Rejected e) s) = data s
   \<and> error (execute_settle (Rejected e) s) = Some (errorMessage e)
   \<and> loading (execute_settle (Rejected e) s) = False
   \<and> data (execute_start s) = data s
   \<and> error (execute_start s) = None
   \<and> (data (step s ev) = None)
       = (ev = Reset \<or> ev = Settle (Resolved None)
          \<or> (data s = None \<and> (\<forall>r. ev \<noteq> Settle (Resolved r))))"
proof -
  have "(data (step s ev) = None)
        = (ev = Reset \<or> ev = Settle (Resolved None)
           \<or> (data s = None \<and> (\<forall>r. ev \<noteq> Settle (Resolved r))))"
  proof (cases ev)
    case Start
    then show ?thesis by (simp add: execute_start_def)
  next
    case (Settle x)
    then show ?thesis by (cases x) (simp_all add: execute_settle_def)
  next
    case Reset
    then show ?thesis by (simp add: reset_def)
  qed
  then show ?thesis by (simp add: execute_settle_def execute_start_def)
qed

text \<open>
  C10 as stated fails: a call is fulfilled with 1, a second call is fulfilled with
  \<^verbatim>\<open>null\<close>, and \<open>data\<close> is \<^verbatim>\<open>null\<close> though \<^verbatim>\<open>reset()\<close> was never called.
\<close>

theorem data_null_without_reset_counterexample:
  "data (run initialState [Start, Settle (Resolved (Some (1::nat)))]) = Some 1
   \<and> data (run initialState
             [Start, Settle (Resolved (Some (1::nat))), Start, Settle (Resolved None)])
       = None"
  by (simp add: run_def execute_settle_def initialState_def execute_start_def)

lemma data_kept_without_reset:
  "Reset \<notin> set es \<Longrightarrow> Settle (Resolved None) \<notin> set es \<Longrightarrow> data s \<noteq> None
   \<Longrightarrow> data (run s es) \<noteq> None"
proof (induction es arbitrary: s)
  case Nil
  then show ?case by (simp add: run_Nil)
next
  case (Cons ev es)
  have "data (step s ev) \<noteq> None"
  proof (cases ev)
    case Start
    with Cons.prems show ?thesis by (simp add: execute_start_def)
  next
    case (Settle x)
    with Cons.prems show ?thesis
    proof (cases x)
      case (Resolved v)
      with Settle Cons.prems have "v \<noteq> None" by (cases v) auto
      with Resolved Settle show ?thesis by (cases v) (simp_all add: execute_settle_def)
    next
      case (Rejected e)
      with Settle Cons.prems show ?thesis by (simp add: execute_settle_def)
    qed
  next
    case Reset
    with Cons.prems show ?thesis by simp
  qed
  with Cons show ?case by (simp add: run_Cons)
qed

lemma errorMessage_priority:
  "errorMessage (AxiosError (Some r) m)
     = (case detail r of None \<Rightarrow> m | Some d \<Rightarrow> if d \<noteq> [] then d else m)"
  "errorMessage (PlainError m) = m"
  "errorMessage NonError = ''An unknown error occurred''"
  by (simp_all add: errorMessage_def js_or_def response_detail_def)

lemma execute_return_error:
  "(execute_return (Rejected e) = Inl m) = (error (execute_settle (Rejected e) s) = Some m)"
  by (auto simp add: execute_return_def execute_settle_def)

text \<open>
  C5. An axios error without a response (the request never got an answer) is turned by
  \<^verbatim>\<open>execute\<close> into the error's own message, whatever the transport wrote there, whereas
  \<^verbatim>\<open>handleApiError\<close> turns the same error into the fixed network message.
\<close>

theorem execute_network_failure:
  "errorMessage (AxiosError None m) = m
   \<and> handleApiError (AxiosError None m) = ERROR_MESSAGES_NETWORK"
  by (simp add: errorMessage_def handleApiError_def js_or_def response_detail_def)

section \<open>Properties of the trade ledger\<close>

lemma sortKey_same_type:
  "(\<exists>x y. sortKey dp f a = StringValue x \<and> sortKey dp f b = StringValue y)
   \<or> (\<exists>x y. sortKey dp f a = NumberValue x \<and> sortKey dp f b = NumberValue y)"
  by (cases f) simp_all

lemma compareTrades_key_cong:
  "sortKey dp f a = sortKey dp f a' \<Longrightarrow> sortKey dp f b = sortKey dp f b'
   \<Longrightarrow> compareTrades coll dp f d a b = compareTrades coll dp f d a' b'"
  by (simp add: compareTrades_def)

lemma if_else_True: "(if A then B else True) = (A \<longrightarrow> B)"
  by simp

lemma consistentComparator_iff:
  "consistentComparator cmp xs =
     (\<forall>a\<in>set xs. \<forall>b\<in>set xs. \<forall>c\<in>set xs.
         cmp a b \<noteq> NaN \<and> cmp a a = Fin 0
       \<and> (cmp a b = Fin 0 \<longrightarrow> cmp b a = Fin 0)
       \<and> (cmp a b = Fin 0 \<and> cmp b c = Fin 0 \<longrightarrow> cmp a c = Fin 0)
       \<and> (js_negative (cmp a b) \<and> js_negative (cmp b c) \<longrightarrow> js_negative (cmp a c))
       \<and> (js_positive (cmp a b) \<and> js_positive (cmp b c) \<longrightarrow> js_positive (cmp a c)))"
  unfolding consistentComparator_def list_all_iff if_else_True by (rule refl)

lemma consistentComparator_refl:
  "consistentComparator cmp xs \<Longrightarrow> a \<in> set xs \<Longrightarrow> cmp a a = Fin 0"
  unfolding consistentComparator_iff by blast

lemma consistentComparator_order:
  fixes g :: "'a \<Rightarrow> 'a \<Rightarrow> real"
  assumes fin: "\<And>a b. a \<in> set xs \<Longrightarrow> b \<in> set xs \<Longrightarrow> cmp a b = Fin (g a b)"
    and anti: "\<And>a b. (g a b < 0) = (0 < g b a)"
    and trans: "\<And>a b c. g a b \<le> 0 \<Longrightarrow> g b c \<le> 0 \<Longrightarrow> g a c \<le> 0"
  shows "consistentComparator cmp xs"
proof -
  have refl: "g a a = 0" for a
    using anti [of a a] by linarith
  have sym: "g b a = 0" if "g a b = 0" for a b
    using anti [of a b] anti [of b a] that by linarith
  have tz: "g a c = 0" if "g a b = 0" and "g b c = 0" for a b c
  proof -
    have "g a c \<le> 0" using trans [of a b c] that by simp
    moreover have "g c a \<le> 0" using trans [of c b a] sym that by simp
    ultimately show ?thesis using anti [of a c] anti [of c a] by linarith
  qed
  have tn: "g a c < 0" if "g a b < 0" and "g b c < 0" for a b c
  proof (rule ccontr)
    assume "\<not> g a c < 0"
    moreover have "g a c \<le> 0" using trans [of a b c] that by simp
    ultimately have "g a c = 0" by simp
    then have "g c a = 0" by (rule sym)
    then have "g c b \<le> 0" using trans [of c a b] that by simp
    then show False using anti [of b c] that by simp
  qed
  have tp: "0 < g a c" if "0 < g a b" and "0 < g b c" for a b c
    using tn [of c b a] anti [of c b] anti [of b a] anti [of c a] that by simp
  show ?thesis
    unfolding consistentComparator_iff
  proof (intro ballI)
    fix a b c
    assume "a \<in> set xs" "b \<in> set xs" "c \<in> set xs"
    then have "cmp a b = Fin (g a b)" "cmp a a = Fin (g a a)" "cmp b a = Fin (g b a)"
      "cmp b c = Fin (g b c)" "cmp a c = Fin (g a c)"
      by (simp_all add: fin)
    then show "cmp a b \<noteq> NaN \<and> cmp a a = Fin 0
       \<and> (cmp a b = Fin 0 \<longrightarrow> cmp b a = Fin 0)
       \<and> (cmp a b = Fin 0 \<and> cmp b c = Fin 0 \<longrightarrow> cmp a c = Fin 0)
       \<and> (js_negative (cmp a b) \<and> js_negative (cmp b c) \<longrightarrow> js_negative (cmp a c))
       \<and> (js_positive (cmp a b) \<and> js_positive (cmp b c) \<longrightarrow> js_positive (cmp a c))"
      using refl [of a] sym [of a b] tz [of a b c] tn [of a b c] tp [of a b c]
      by (simp add: js_negative_def js_positive_def)
  qed
qed

lemma consistent_strings:
  assumes coll: "properCollation coll"
    and key: "\<And>a. sortKey dp f a = StringValue (k a)"
  shows "consistentComparator (compareTrades coll dp f d) ts"
proof (cases d)
  case Asc
  show ?thesis
  proof (rule consistentComparator_order [where g = "\<lambda>a b. real_of_int (coll (k a) (k b))"])
    show "compareTrades coll dp f d a b = Fin (real_of_int (coll (k a) (k b)))" for a b
      using Asc by (simp add: compareTrades_def key localeCompare_def)
    show "(real_of_int (coll (k a) (k b)) < 0) = (0 < real_of_int (coll (k b) (k a)))" for a b
      using coll by (simp add: properCollation_def)
    show "real_of_int (coll (k a) (k c)) \<le> 0"
      if "real_of_int (coll (k a) (k b)) \<le> 0" and "real_of_int (coll (k b) (k c)) \<le> 0" for a b c
      using coll that unfolding properCollation_def by (metis of_int_le_0_iff)
  qed
next
  case Desc
  show ?thesis
  proof (rule consistentComparator_order [where g = "\<lambda>a b. real_of_int (coll (k b) (k a))"])
    show "compareTrades coll dp f d a b = Fin (real_of_int (coll (k b) (k a)))" for a b
      using Desc by (simp add: compareTrades_def key localeCompare_def)
    show "(real_of_int (coll (k b) (k a)) < 0) = (0 < real_of_int (coll (k a) (k b)))" for a b
      using coll by (simp add: properCollation_def)
    show "real_of_int (coll (k c) (k a)) \<le> 0"
      if "real_of_int (coll (k b) (k a)) \<le> 0" and "real_of_int (coll (k c) (k b)) \<le> 0" for a b c
      using coll that unfolding properCollation_def by (metis of_int_le_0_iff)
  qed
qed

lemma consistent_numbers:
  assumes key: "\<And>a. a \<in> set ts \<Longrightarrow> sortKey dp f a = NumberValue (Fin (n a))"
  shows "consistentComparator (compareTrades coll dp f d) ts"
proof (cases d)
  case Asc
  show ?thesis
  proof (rule consistentComparator_order [where g = "\<lambda>a b. n a - n b"])
    show "compareTrades coll dp f d a b = Fin (n a - n b)"
      if "a \<in> set ts" and "b \<in> set ts" for a b
      using Asc that by (simp add: compareTrades_def key)
  qed auto
next
  case Desc
  show ?thesis
  proof (rule consistentComparator_order [where g = "\<lambda>a b. n b - n a"])
    show "compareTrades coll dp f d a b = Fin (n b - n a)"
      if "a \<in> set ts" and "b \<in> set ts" for a b
      using Desc that by (simp add: compareTrades_def key)
  qed auto
qed

lemma compareTrades_consistent:
  assumes coll: "properCollation coll"
    and parse: "f = Timestamp \<Longrightarrow> list_all (\<lambda>t. dp (timestamp t) \<noteq> None) ts"
  shows "consistentComparator (compareTrades coll dp f d) ts"
proof (cases f)
  case Week
  then show ?thesis by (intro consistent_strings [where k = week] coll) simp
next
  case Symbol
  then show ?thesis by (intro consistent_strings [where k = symbol] coll) simp
next
  case Action
  then show ?thesis by (intro consistent_strings [where k = action] coll) simp
next
  case Quantity
  then show ?thesis by (intro consistent_numbers [where n = quantity]) simp
next
  case Price
  then show ?thesis by (intro consistent_numbers [where n = price]) simp
next
  case Cash_flow
  then show ?thesis by (intro consistent_numbers [where n = cash_flow]) simp
next
  case Timestamp
  with parse have "\<forall>a\<in>set ts. dp (timestamp a) \<noteq> None"
    by (simp add: list_all_iff)
  with Timestamp show ?thesis
    by (intro consistent_numbers [where n = "\<lambda>a. real_of_int (the (dp (timestamp a)))"])
       (auto simp add: getTime_def)
qed

text \<open>
  Inserting \<open>x\<close> keeps the elements that satisfy \<open>P\<close> in their order, with \<open>x\<close> in front of
  them, when \<open>x\<close> compares greater than none of them.
\<close>

lemma filter_js_insert:
  assumes "\<And>y. y \<in> set ys \<Longrightarrow> P x \<Longrightarrow> P y \<Longrightarrow> \<not> js_positive (sortCompare cmp x y)"
  shows "filter P (js_insert cmp x ys) = (if P x then x # filter P ys else filter P ys)"
  using assms by (induction ys) auto

lemma insertionSort_Cons:
  "insertionSort cmp (x # xs) = js_insert cmp x (insertionSort cmp xs)"
  by (simp add: insertionSort_def)

lemma mset_js_insert: "mset (js_insert cmp x ys) = add_mset x (mset ys)"
  by (induction ys) simp_all

lemma mset_insertionSort: "mset (insertionSort cmp xs) = mset xs"
  by (induction xs) (simp_all add: insertionSort_def mset_js_insert)

lemma set_insertionSort: "set (insertionSort cmp xs) = set xs"
  using mset_insertionSort [of cmp xs] by (metis set_mset_mset)

lemma insertionSort_stable:
  assumes "\<And>x y. x \<in> set xs \<Longrightarrow> y \<in> set xs \<Longrightarrow> P x \<Longrightarrow> P y
             \<Longrightarrow> \<not> js_positive (sortCompare cmp x y)"
  shows "filter P (insertionSort cmp xs) = filter P xs"
  using assms
proof (induction xs)
  case Nil
  show ?case by (simp add: insertionSort_def)
next
  case (Cons x xs)
  have "filter P (js_insert cmp x (insertionSort cmp xs))
        = (if P x then x # filter P (insertionSort cmp xs) else filter P (insertionSort cmp xs))"
    by (rule filter_js_insert) (simp add: set_insertionSort Cons.prems)
  moreover have "filter P (insertionSort cmp xs) = filter P xs"
    by (rule Cons.IH) (simp add: Cons.prems)
  ultimately show ?case by (simp add: insertionSort_Cons)
qed

lemma mset_js_sort: "mset (js_sort engine cmp xs) = mset xs"
  by (simp add: js_sort_def mset_insertionSort)

lemma mset_sortedTrades: "mset (sortedTrades engine coll dp f d ts) = mset ts"
  by (simp add: sortedTrades_def mset_js_sort)

lemma js_sort_single: "js_sort engine cmp [x] = [x]"
  using mset_js_sort [of engine cmp "[x]"] by simp

lemma js_sort_consistent:
  "consistentComparator cmp xs \<Longrightarrow> js_sort engine cmp xs = insertionSort cmp xs"
  by (simp add: js_sort_def)

text \<open>
  With a consistent comparison function, trades with the same sort-key value keep their
  order.
\<close>

lemma sortedTrades_stable_consistent:
  assumes "consistentComparator (compareTrades coll dp f d) ts"
  shows "filter (\<lambda>t. sortKey dp f t = k) (sortedTrades engine coll dp f d ts)
         = filter (\<lambda>t. sortKey dp f t = k) ts"
proof -
  have "\<not> js_positive (sortCompare (compareTrades coll dp f d) a b)"
    if "a \<in> set ts" and "sortKey dp f a = k" and "sortKey dp f b = k" for a b
  proof -
    have "compareTrades coll dp f d a b = compareTrades coll dp f d a a"
      using that by (intro compareTrades_key_cong) simp_all
    also have "\<dots> = Fin 0"
      using assms that(1) by (rule consistentComparator_refl)
    finally show ?thesis by (simp add: sortCompare_def js_positive_def)
  qed
  then have "filter (\<lambda>t. sortKey dp f t = k) (insertionSort (compareTrades coll dp f d) ts)
             = filter (\<lambda>t. sortKey dp f t = k) ts"
    by (intro insertionSort_stable) simp
  with assms show ?thesis by (simp add: sortedTrades_def js_sort_consistent)
qed

lemma codeUnitCompare_antisym: "(codeUnitCompare x y < 0) = (0 < codeUnitCompare y x)"
  by (induction x y rule: codeUnitCompare.induct) auto

lemma codeUnitCompare_trans:
  "codeUnitCompare x y \<le> 0 \<Longrightarrow> codeUnitCompare y z \<le> 0 \<Longrightarrow> codeUnitCompare x z \<le> 0"
proof (induction x y arbitrary: z rule: codeUnitCompare.induct)
  case 1
  then show ?case by simp
next
  case (2 y ys)
  then show ?case by (cases z) simp_all
next
  case (3 x xs)
  then show ?case by simp
next
  case (4 x xs y ys)
  show ?case
  proof (cases z)
    case Nil
    with "4.prems" show ?thesis by simp
  next
    case (Cons c cs)
    from "4.prems"(1) have ab: "(of_char x :: nat) \<le> of_char y"
      by (simp split: if_splits)
    from "4.prems"(2) Cons have bc: "(of_char y :: nat) \<le> of_char c"
      by (simp split: if_splits)
    show ?thesis
    proof (cases "(of_char x :: nat) < of_char c")
      case True
      with Cons show ?thesis by simp
    next
      case False
      with ab bc have xy: "(of_char x :: nat) = of_char y" and yc: "(of_char y :: nat) = of_char c"
        by linarith+
      from "4.prems"(1) xy have "codeUnitCompare xs ys \<le> 0" by simp
      moreover from "4.prems"(2) Cons yc have "codeUnitCompare ys cs \<le> 0" by simp
      ultimately have "codeUnitCompare xs cs \<le> 0"
        using "4.IH" xy by simp
      with xy yc Cons show ?thesis by simp
    qed
  qed
qed

lemma properCollation_codeUnitCompare: "properCollation codeUnitCompare"
  unfolding properCollation_def
  using codeUnitCompare_antisym codeUnitCompare_trans by blast

text \<open>
  C7 (as the code has it). For every trade list, every sortable field and both directions,
  the trades that have one and the same sort-key value stand in the sorted list in the order
  they have in the input, provided that, when the field is the timestamp, every timestamp
  of the list parses as a date (and given that the collation is antisymmetric and
  transitive). This holds whatever the implementation does where the language leaves it
  free.
\<close>

theorem sortedTrades_stable:
  assumes "properCollation coll"
    and "f = Timestamp \<Longrightarrow> list_all (\<lambda>t. dp (timestamp t) \<noteq> None) ts"
  shows "filter (\<lambda>t. sortKey dp f t = k) (sortedTrades engine coll dp f d ts)
         = filter (\<lambda>t. sortKey dp f t = k) ts"
  using assms by (intro sortedTrades_stable_consistent compareTrades_consistent)

text \<open>
  Three trades with timestamps that parse, sorted by timestamp, descending: the two trades
  of 13:09:30, of weeks 1 and 3, keep their order behind the trade of 13:09:31.
\<close>

theorem sortedTrades_stable_witness:
  "properCollation codeUnitCompare
   \<and> list_all (\<lambda>t. exampleDateParse (timestamp t) \<noteq> None)
       [tradeAt ''1'' ''2025-06-28T13:09:30Z'', tradeAt ''2'' ''2025-06-28T13:09:31Z'',
        tradeAt ''3'' ''2025-06-28T13:09:30Z'']
   \<and> map week (filter (\<lambda>t. sortKey exampleDateParse Timestamp t
                             = NumberValue (Fin 1751116170000))
       (sortedTrades exampleEngine codeUnitCompare exampleDateParse Timestamp Desc
          [tradeAt ''1'' ''2025-06-28T13:09:30Z'', tradeAt ''2'' ''2025-06-28T13:09:31Z'',
           tradeAt ''3'' ''2025-06-28T13:09:30Z'']))
     = [''1'', ''3'']"
proof -
  have p: "list_all (\<lambda>t. exampleDateParse (timestamp t) \<noteq> None)
       [tradeAt ''1'' ''2025-06-28T13:09:30Z'', tradeAt ''2'' ''2025-06-28T13:09:31Z'',
        tradeAt ''3'' ''2025-06-28T13:09:30Z'']"
    by (simp add: tradeAt_def exampleDateParse_def)
  show ?thesis
    using sortedTrades_stable [OF properCollation_codeUnitCompare, of Timestamp
        exampleDateParse
        "[tradeAt ''1'' ''2025-06-28T13:09:30Z'', tradeAt ''2'' ''2025-06-28T13:09:31Z'',
          tradeAt ''3'' ''2025-06-28T13:09:30Z'']"
        "NumberValue (Fin 1751116170000)" exampleEngine Desc, OF p]
      properCollation_codeUnitCompare p
    by (simp add: tradeAt_def exampleTrade_def exampleDateParse_def getTime_def)
qed

text \<open>
  C7 as stated fails. The seven trades of \<open>unstableTrades\<close> are sorted by timestamp,
  descending (the state in which the table is first shown), by the example implementation.
  The timestamp of the trade of week 3 is not a date, so the comparison function returns NaN
  for it. The trades of weeks 4 and 6 have the same timestamp and stand in this order in the
  input; in the sorted list the trade of week 6 stands before the trade of week 4.
\<close>

theorem sortedTrades_unstable_counterexample:
  "map week (sortedTrades exampleEngine codeUnitCompare exampleDateParse Timestamp Desc
               unstableTrades)
     = [''5'', ''6'', ''0'', ''1'', ''2'', ''3'', ''4'']
   \<and> map week (filter (\<lambda>t. sortKey exampleDateParse Timestamp t
                             = NumberValue (Fin 1751116170000)) unstableTrades)
     = [''4'', ''6'']
   \<and> map week (filter (\<lambda>t. sortKey exampleDateParse Timestamp t
                             = NumberValue (Fin 1751116170000))
        (sortedTrades exampleEngine codeUnitCompare exampleDateParse Timestamp Desc
           unstableTrades))
     = [''6'', ''4'']"
proof -
  have sorted: "sortedTrades exampleEngine codeUnitCompare exampleDateParse Timestamp Desc
                  unstableTrades
     = [tradeAt ''5'' ''2025-06-28T13:09:31Z'', tradeAt ''6'' ''2025-06-28T13:09:30Z'',
        tradeAt ''0'' ''2025-06-28T13:09:28Z'', tradeAt ''1'' ''2025-06-28T13:09:27Z'',
        tradeAt ''2'' ''2025-06-28T13:09:26Z'', tradeAt ''3'' ''not a date'',
        tradeAt ''4'' ''2025-06-28T13:09:30Z'']"
    by code_simp
  show ?thesis
    unfolding sorted
    by (simp add: unstableTrades_def tradeAt_def exampleTrade_def exampleDateParse_def
        getTime_def)
qed

text \<open>
  C6 (as the code has it). Sorting by \<^verbatim>\<open>week\<close> compares the week values as labels, with
  \<^verbatim>\<open>localeCompare\<close>, in both directions and for all labels, those that parse as numbers
  included: the comparison is the collation of the two labels.
\<close>

theorem week_compared_as_label:
  "compareTrades coll dp Week Asc a b = Fin (real_of_int (coll (week a) (week b)))
   \<and> compareTrades coll dp Week Desc a b = Fin (real_of_int (coll (week b) (week a)))
   \<and> sortedTrades engine coll dp Week Asc ts
       = js_sort engine (\<lambda>a b. Fin (real_of_int (coll (week a) (week b)))) ts
   \<and> sortedTrades engine coll dp Week Desc ts
       = js_sort engine (\<lambda>a b. Fin (real_of_int (coll (week b) (week a)))) ts"
proof -
  have asc: "compareTrades coll dp Week Asc a b = Fin (real_of_int (coll (week a) (week b)))"
    for a b
    by (simp add: compareTrades_def localeCompare_def)
  have desc: "compareTrades coll dp Week Desc a b = Fin (real_of_int (coll (week b) (week a)))"
    for a b
    by (simp add: compareTrades_def localeCompare_def)
  have "compareTrades coll dp Week Asc = (\<lambda>a b. Fin (real_of_int (coll (week a) (week b))))"
    by (intro ext) (rule asc)
  moreover
  have "compareTrades coll dp Week Desc = (\<lambda>a b. Fin (real_of_int (coll (week b) (week a))))"
    by (intro ext) (rule desc)
  ultimately show ?thesis
    by (simp add: sortedTrades_def asc desc)
qed

text \<open>
  C6 as stated fails: the labels 2 and 10 parse as the numbers 2 and 10, and the ascending
  sort by week puts the trade of week 10 before the trade of week 2.
\<close>

theorem week_sort_counterexample:
  "spec_weekNumber ''2'' = Some 2 \<and> spec_weekNumber ''10'' = Some 10
   \<and> map week (sortedTrades exampleEngine codeUnitCompare exampleDateParse Week Asc
        [exampleTrade ''2'' ''IWM'', exampleTrade ''10'' ''IWM'']) = [''10'', ''2'']"
proof -
  have "consistentComparator (compareTrades codeUnitCompare exampleDateParse Week Asc)
          [exampleTrade ''2'' ''IWM'', exampleTrade ''10'' ''IWM'']"
    by (intro compareTrades_consistent properCollation_codeUnitCompare) simp
  then show ?thesis
    by (simp add: spec_weekNumber_def spec_digit_def sortedTrades_def js_sort_def
        insertionSort_def sortCompare_def compareTrades_def localeCompare_def js_positive_def
        exampleTrade_def)
qed

section \<open>Properties of the summary and of the comparison chart\<close>

lemma returnPercentage_finite:
  "returnPercentage s =
     Fin (if 0 < initial_capital s
          then (final_capital s - initial_capital s) / initial_capital s * 100 else 0)"
  by (simp add: returnPercentage_def)

lemma returnPercentage_isFinite: "isFinite (returnPercentage s)"
  by (simp add: returnPercentage_finite isFinite_def)

lemma chartRow_Return_Pct:
  "Return_Pct (chartRow label v) =
     (if initial_capital (summary v) = 0
      then (if final_capital (summary v) = 0 then NaN
            else if 0 < final_capital (summary v) then PosInf else NegInf)
      else Fin ((final_capital (summary v) - initial_capital (summary v))
                / initial_capital (summary v) * 100))"
  by (simp add: chartRow_def Let_def)

text \<open>
  C3. For a summary with initial capital 0 the summary card computes the return percentage
  0, and the comparison chart computes NaN (final capital 0) or Infinity (final capital
  100) for the same strategy entry.
\<close>

theorem chart_return_percent_unguarded:
  "returnPercentage (exampleSummary 0 0) = Fin 0
   \<and> map Return_Pct (comparisonData (Some (exampleResult (exampleSummary 0 0) None)) None)
       = [NaN]
   \<and> map Return_Pct (comparisonData (Some (exampleResult (exampleSummary 0 100) None)) None)
       = [PosInf]"
  by (simp add: returnPercentage_def comparisonData_def pushRow_def chartRow_def truthy_def
      exampleSummary_def exampleResult_def)

lemma SummaryMetrics_error:
  "result_error r = Some e \<Longrightarrow> e \<noteq> [] \<Longrightarrow> SummaryMetrics r n = ErrorSummary n e"
  by (simp add: SummaryMetrics_def)

lemma pushRow_error:
  "result_error r = Some e \<Longrightarrow> e \<noteq> [] \<Longrightarrow> pushRow label (Some r) = []"
  by (simp add: pushRow_def truthy_def)

text \<open>
  C4. For a wheel entry that carries the error \<^verbatim>\<open>timeout\<close> and one trade, the results panel
  shows the error card of \<^verbatim>\<open>SummaryMetrics\<close> and, next to it, the trades table over the
  entry's \<^verbatim>\<open>trades\<close>; the chart has no row for the entry.
\<close>

theorem results_panel_reads_trades_of_error_entry:
  "ResultsPanel engine coll dp
     (Some \<lparr>wheel = Some (exampleResult (exampleSummary 50000 50003.96) (Some ''timeout'')),
            rotator = None\<rparr>) False
   = ResultsShown
       (Some (ErrorSummary ''Wheel'' ''timeout'',
              TradesCard ''Wheel Strategy Trades'' 1 (Some [exampleTrade ''Week0'' ''IWM''])))
       None NoDataAvailable"
  by (simp add: ResultsPanel_def strategySection_def SummaryMetrics_def TradesTable_def
      sortedTrades_def js_sort_single PerformanceChart_def comparisonData_def pushRow_def
      truthy_def exampleResult_def)

text \<open>\<open>js_includes\<close> is the substring test.\<close>

lemma js_includes_iff: "js_includes s sub = (\<exists>p q. s = p @ sub @ q)"
proof (induction s)
  case Nil
  show ?case by auto
next
  case (Cons c cs)
  have "(\<exists>p q. c # cs = p @ sub @ q)
        = (take (length sub) (c # cs) = sub \<or> (\<exists>p q. cs = p @ sub @ q))"
  proof
    assume "\<exists>p q. c # cs = p @ sub @ q"
    then obtain p q where pq: "c # cs = p @ sub @ q" by blast
    show "take (length sub) (c # cs) = sub \<or> (\<exists>p q. cs = p @ sub @ q)"
    proof (cases p)
      case Nil
      with pq show ?thesis by simp
    next
      case (Cons a p')
      with pq have "cs = p' @ sub @ q" by simp
      then show ?thesis by blast
    qed
  next
    assume "take (length sub) (c # cs) = sub \<or> (\<exists>p q. cs = p @ sub @ q)"
    then show "\<exists>p q. c # cs = p @ sub @ q"
    proof
      assume t: "take (length sub) (c # cs) = sub"
      have "c # cs = [] @ take (length sub) (c # cs) @ drop (length sub) (c # cs)"
        by simp
      with t show ?thesis by metis
    next
      assume "\<exists>p q. cs = p @ sub @ q"
      then obtain p q where "cs = p @ sub @ q" by blast
      then have "c # cs = (c # p) @ sub @ q" by simp
      then show ?thesis by blast
    qed
  qed
  with Cons.IH show ?case by simp
qed

text \<open>
  C8 (as the code has it). A numeric additional metric is shown as a percentage exactly when
  its key contains \<^verbatim>\<open>rate\<close>, \<^verbatim>\<open>percentage\<close> or \<^verbatim>\<open>ratio\<close> in these very letters (the match
  is case-sensitive), and as a plain number otherwise; a value that is not a number is
  shown in its string form.
\<close>

theorem additional_metric_rendering:
  "(renderMetric key (JNumber n) = Percentage n)
   = ((\<exists>p q. key = p @ ''rate'' @ q) \<or> (\<exists>p q. key = p @ ''percentage'' @ q)
      \<or> (\<exists>p q. key = p @ ''ratio'' @ q))
   \<and> (renderMetric key (JNumber n) = LocaleNumber n)
   = (\<not> ((\<exists>p q. key = p @ ''rate'' @ q) \<or> (\<exists>p q. key = p @ ''percentage'' @ q)
      \<or> (\<exists>p q. key = p @ ''ratio'' @ q)))
   \<and> renderMetric key (JString s) = StringForm s
   \<and> renderMetric key (JBool b) = StringForm (if b then ''true'' else ''false'')
   \<and> renderMetric key JNull = StringForm ''null''"
  unfolding js_includes_iff [symmetric] renderMetric_def by simp

text \<open>
  C8 as stated fails: the keys \<^verbatim>\<open>Win_Rate\<close> and \<^verbatim>\<open>SHARPE_RATIO\<close> contain \<^verbatim>\<open>rate\<close> and
  \<^verbatim>\<open>ratio\<close> when case is ignored, and their numeric values are shown as plain numbers.
\<close>

theorem case_insensitive_counterexample:
  "spec_percentage_key ''Win_Rate''
   \<and> renderMetric ''Win_Rate'' (JNumber 55) = LocaleNumber 55
   \<and> spec_percentage_key ''SHARPE_RATIO''
   \<and> renderMetric ''SHARPE_RATIO'' (JNumber 2) = LocaleNumber 2"
proof -
  have "spec_percentage_key ''Win_Rate''" by code_simp
  moreover have "spec_percentage_key ''SHARPE_RATIO''" by code_simp
  moreover have "renderMetric ''Win_Rate'' (JNumber 55) = LocaleNumber 55"
    by (simp add: renderMetric_def)
  moreover have "renderMetric ''SHARPE_RATIO'' (JNumber 2) = LocaleNumber 2"
    by (simp add: renderMetric_def)
  ultimately show ?thesis by blast
qed

text \<open>
  C9 (as the code has it). The comparison data are the rows of the entries that pass the
  test \<^verbatim>\<open>!result.error\<close>, one row each, in the order wheel, rotator. An entry passes when
  it has no error or an empty one; an entry with an error that is not empty has no row. A
  row carries the label, the return amount and the trade count of its entry and, when the
  initial capital of the entry is positive, its return percent, the one \<^verbatim>\<open>SummaryMetrics\<close>
  shows. The chart shows the "No data available" card exactly when no entry passes.
\<close>

theorem comparison_rows:
  "comparisonData w r
     = map (\<lambda>(label, v). chartRow label v) (filter passesErrorTest (labelledViews w r))
   \<and> length (comparisonData w r) = length (filter passesErrorTest (labelledViews w r))
   \<and> (PerformanceChart w r = NoDataAvailable)
       = (filter passesErrorTest (labelledViews w r) = [])
   \<and> passesErrorTest (label, v) = (result_error v = None \<or> result_error v = Some [])
   \<and> chart_strategy (chartRow label v) = label
   \<and> Return_USD (chartRow label v)
       = Fin (final_capital (summary v) - initial_capital (summary v))
   \<and> chart_trades (chartRow label v) = total_trades (summary v)
   \<and> (0 < initial_capital (summary v) \<longrightarrow>
        Return_Pct (chartRow label v) = returnPercentage (summary v)
        \<and> Return_Pct (chartRow label v)
            = Fin ((final_capital (summary v) - initial_capital (summary v))
                   / initial_capital (summary v) * 100))"
proof -
  have rows: "comparisonData w r
     = map (\<lambda>(label, v). chartRow label v) (filter passesErrorTest (labelledViews w r))"
    by (cases w; cases r)
       (simp_all add: comparisonData_def pushRow_def labelledViews_def passesErrorTest_def
         List.map_filter_simps)
  have len: "length (comparisonData w r) = length (filter passesErrorTest (labelledViews w r))"
    by (simp add: rows)
  have empty: "(PerformanceChart w r = NoDataAvailable)
       = (filter passesErrorTest (labelledViews w r) = [])"
    by (simp add: PerformanceChart_def rows)
  have test: "passesErrorTest (label, v) = (result_error v = None \<or> result_error v = Some [])"
    by (auto simp add: passesErrorTest_def truthy_def split: option.splits)
  have fields: "chart_strategy (chartRow label v) = label"
    "Return_USD (chartRow label v) = Fin (final_capital (summary v) - initial_capital (summary v))"
    "chart_trades (chartRow label v) = total_trades (summary v)"
    by (simp_all add: chartRow_def Let_def)
  have pct: "Return_Pct (chartRow label v) = returnPercentage (summary v)
        \<and> Return_Pct (chartRow label v)
            = Fin ((final_capital (summary v) - initial_capital (summary v))
                   / initial_capital (summary v) * 100)"
    if "0 < initial_capital (summary v)"
    using that by (simp add: chartRow_Return_Pct returnPercentage_finite)
  from rows len empty test fields pct show ?thesis by blast
qed

text \<open>
  The wheel entry of the scenario, with initial capital 50000 and final capital 50003.96 and
  no error: it has the one row of the comparison data, and the row's return percent is that
  of the summary card, 3.96 / 50000 * 100.
\<close>

theorem comparison_rows_witness:
  "0 < initial_capital (summary (exampleResult (exampleSummary 50000 50003.96) None))
   \<and> map Return_Pct
        (comparisonData (Some (exampleResult (exampleSummary 50000 50003.96) None)) None)
       = [returnPercentage (exampleSummary 50000 50003.96)]
   \<and> returnPercentage (exampleSummary 50000 50003.96) = Fin (3.96 / 50000 * 100)"
proof -
  have pos: "0 < initial_capital (summary (exampleResult (exampleSummary 50000 50003.96) None))"
    by (simp add: exampleResult_def exampleSummary_def)
  have rows: "comparisonData (Some (exampleResult (exampleSummary 50000 50003.96) None)) None
      = [chartRow ''Options Wheel'' (exampleResult (exampleSummary 50000 50003.96) None)]"
    using comparison_rows [of "Some (exampleResult (exampleSummary 50000 50003.96) None)" None]
    by (simp add: labelledViews_def List.map_filter_simps passesErrorTest_def truthy_def
        exampleResult_def)
  have "Return_Pct (chartRow ''Options Wheel''
          (exampleResult (exampleSummary 50000 50003.96) None))
        = returnPercentage (exampleSummary 50000 50003.96)"
    using comparison_rows [of _ _ "''Options Wheel''"
        "exampleResult (exampleSummary 50000 50003.96) None"] pos
    by (simp add: exampleResult_def)
  moreover have "returnPercentage (exampleSummary 50000 50003.96) = Fin (3.96 / 50000 * 100)"
    by (simp add: returnPercentage_def exampleSummary_def)
  ultimately show ?thesis using pos rows by simp
qed

text \<open>
  C9 as stated fails: a wheel entry that carries an \<^verbatim>\<open>error\<close> field, the empty string, is an
  error view, and the comparison data have a row for it.
\<close>

theorem error_view_row_counterexample:
  "spec_error_view (exampleResult (exampleSummary 50000 50003.96) (Some []))
   \<and> map chart_strategy
        (comparisonData (Some (exampleResult (exampleSummary 50000 50003.96) (Some []))) None)
       = [''Options Wheel'']"
  by (simp add: spec_error_view_def comparisonData_def pushRow_def chartRow_def truthy_def
      exampleResult_def Let_def)

end
